theory Spec2Isabelle
  imports Main
begin

section \<open>Values, dictionaries and errors\<close>

text \<open>
  The tools work on Python dictionaries whose values are \<open>None\<close>, booleans, integers,
  strings or lists of strings (the value kinds that occur in \<open>_load_mock_data\<close>).
  Floating-point values are outside the model. A dictionary is an association list in
  insertion order; \<open>dict_set\<close> is item assignment (an existing key keeps its position,
  a new key is appended) and \<open>dict_update\<close> is \<open>dict.update\<close>.
\<close>

datatype pyval =
    PNone
  | PBool bool
  | PInt int
  | PStr string
  | PStrList "string list"

type_synonym 'v dict = "(string \<times> 'v) list"

definition dict_get :: "'v dict \<Rightarrow> string \<Rightarrow> 'v option" where
  "dict_get d k = map_of d k"

definition dict_keys :: "'v dict \<Rightarrow> string list" where
  "dict_keys d = map fst d"

definition dict_has :: "string \<Rightarrow> 'v dict \<Rightarrow> bool" where
  "dict_has k d = (k \<in> set (dict_keys d))"

fun dict_set :: "string \<Rightarrow> 'v \<Rightarrow> 'v dict \<Rightarrow> 'v dict" where
  "dict_set k v [] = [(k, v)]"
| "dict_set k v ((k', v') # d) =
     (if k' = k then (k, v) # d else (k', v') # dict_set k v d)"

fun dict_update :: "'v dict \<Rightarrow> 'v dict \<Rightarrow> 'v dict" where
  "dict_update d [] = d"
| "dict_update d ((k, v) # u) = dict_update (dict_set k v d) u"

text \<open>Python truthiness of a value, as used by \<open>if custom_fields.get(...)\<close>.\<close>

fun truthy :: "pyval \<Rightarrow> bool" where
  "truthy PNone = False"
| "truthy (PBool b) = b"
| "truthy (PInt i) = (i \<noteq> 0)"
| "truthy (PStr s) = (s \<noteq> [])"
| "truthy (PStrList l) = (l \<noteq> [])"

text \<open>
  The exceptions the tools raise. A \<open>PermissionError\<close> carries which of the two
  messages of \<open>check_cultural_protocol\<close> was built, with the field name and the
  operation that the message interpolates.
\<close>

datatype violation =
    Blocked string string
  | ReadOnly string string

datatype error =
    PermissionError violation
  | ValueError string
  | KeyError string
  | TypeError
  | NotImplementedError

section \<open>BaseTool: the field policy\<close>

definition BLOCKED_FIELDS :: "string list" where
  "BLOCKED_FIELDS = [''elder_consent'', ''sacred_knowledge'']"

definition READ_ONLY_FIELDS :: "string list" where
  "READ_ONLY_FIELDS = [''cultural_protocols'', ''supabase_user_id'', ''elder_review_required'']"

text \<open>
  \<open>check_cultural_protocol(field_name, operation, context)\<close>: returning normally is
  \<open>Inr ()\<close>, raising is \<open>Inl\<close>. The \<open>context\<close> argument is accepted and never read.
\<close>

definition check_cultural_protocol ::
  "string \<Rightarrow> string \<Rightarrow> pyval dict option \<Rightarrow> error + unit" where
  "check_cultural_protocol field_name operation context =
     (if field_name \<in> set BLOCKED_FIELDS then
        Inl (PermissionError (Blocked field_name operation))
      else if field_name \<in> set READ_ONLY_FIELDS \<and> operation \<in> set [''write'', ''delete''] then
        Inl (PermissionError (ReadOnly field_name operation))
      else Inr ())"

section \<open>Strings\<close>

text \<open>
  Python strings are modelled as lists of code points below 256 (ASCII and Latin-1);
  code points above that are outside the model. On this range \<open>str.lower\<close> works
  character by character: \<open>A\<close>..\<open>Z\<close> and the upper-case letters of Latin-1
  (0xC0..0xDE without the multiplication sign 0xD7) move up by 32.
\<close>

definition lower_char :: "char \<Rightarrow> char" where
  "lower_char c =
     (let n = (of_char c :: nat)
      in if (65 \<le> n \<and> n \<le> 90) \<or> (192 \<le> n \<and> n \<le> 222 \<and> n \<noteq> 215)
         then char_of (n + 32) else c)"

definition lower :: "string \<Rightarrow> string" where
  "lower s = map lower_char s"

text \<open>\<open>s.startswith(p)\<close> and the substring test \<open>p in s\<close>.\<close>

fun startswith :: "string \<Rightarrow> string \<Rightarrow> bool" where
  "startswith s [] = True"
| "startswith [] (p # ps) = False"
| "startswith (c # s) (p # ps) = (c = p \<and> startswith s ps)"

fun contains :: "string \<Rightarrow> string \<Rightarrow> bool" where
  "contains p [] = (p = [])"
| "contains p (c # s) = (startswith (c # s) p \<or> contains p s)"

text \<open>\<open>sep.join(xs)\<close>.\<close>

fun join :: "string \<Rightarrow> string list \<Rightarrow> string" where
  "join sep [] = []"
| "join sep [x] = x"
| "join sep (x # y # ys) = x @ sep @ join sep (y # ys)"

text \<open>\<open>s.strip()\<close>: the white space of \<open>str.isspace\<close> below 256.\<close>

definition is_space :: "char \<Rightarrow> bool" where
  "is_space c =
     (let n = (of_char c :: nat)
      in (9 \<le> n \<and> n \<le> 13) \<or> (28 \<le> n \<and> n \<le> 32) \<or> n = 133 \<or> n = 160)"

definition strip :: "string \<Rightarrow> string" where
  "strip s = rev (dropWhile is_space (rev (dropWhile is_space s)))"

section \<open>Contacts and the review classifier\<close>

text \<open>
  A contact is a dictionary with a fixed set of keys. \<open>id\<close> is always there (the store
  indexes by it); every other key may be missing, which is \<open>None\<close> here, and the code
  reads \<open>tags\<close>, \<open>customFields\<close>, \<open>firstName\<close> and \<open>lastName\<close> through
  \<open>contact.get\<close> with a default.
\<close>

record contact =
  cid :: string
  email :: "string option"
  firstName :: "string option"
  lastName :: "string option"
  phone :: "string option"
  companyName :: "string option"
  tags :: "string list option"
  customFields :: "pyval dict option"

definition get_tags :: "contact \<Rightarrow> string list" where
  "get_tags c = (case tags c of None \<Rightarrow> [] | Some ts \<Rightarrow> ts)"

definition get_customFields :: "contact \<Rightarrow> pyval dict" where
  "get_customFields c = (case customFields c of None \<Rightarrow> [] | Some d \<Rightarrow> d)"

definition or_empty :: "string option \<Rightarrow> string" where
  "or_empty x = (case x of None \<Rightarrow> [] | Some s \<Rightarrow> s)"

text \<open>\<open>custom_fields.get(name)\<close> used as a condition: a missing key gives \<open>None\<close>.\<close>

definition field_truthy :: "pyval dict \<Rightarrow> string \<Rightarrow> bool" where
  "field_truthy d k = (case dict_get d k of None \<Rightarrow> False | Some v \<Rightarrow> truthy v)"

text \<open>
  The four local variables of \<open>check_contact_cultural_protocols\<close> (the local
  \<open>blocked_actions\<close> is returned under the key \<open>actions_blocked\<close>), and the returned
  dictionary, which adds the contact's id and name (the keys \<open>contact_id\<close> and
  \<open>contact_name\<close>).
\<close>

record review =
  requires_review :: bool
  reason :: "string option"
  actions_blocked :: "string list"
  recommended_action :: "string option"

record check_result = review +
  res_contact_id :: string
  res_contact_name :: string

definition outreach_actions :: "string list" where
  "outreach_actions = [''automated_email'', ''automated_outreach'', ''ai_generated_content'']"

definition all_actions :: "string list" where
  "all_actions = [''read'', ''write'', ''delete'', ''automated_email'',
                  ''automated_outreach'', ''ai_generated_content'', ''bulk_operations'']"

definition has_elder_tag :: "string list \<Rightarrow> bool" where
  "has_elder_tag ts =
     (''role:elder'' \<in> set ts \<or> list_ex (\<lambda>t. contains ''elder'' (lower t)) ts)"

definition cultural_tags :: "string list \<Rightarrow> string list" where
  "cultural_tags ts = filter (\<lambda>t. startswith t ''cultural:'') ts"

definition check_contact_cultural_protocols :: "contact \<Rightarrow> check_result" where
  "check_contact_cultural_protocols c =
     (let r0 = \<lparr>requires_review = False, reason = None,
                actions_blocked = [], recommended_action = None\<rparr>;
          ts = get_tags c;
          custom_fields = get_customFields c;
          r1 = (if has_elder_tag ts then
                  \<lparr>requires_review = True,
                   reason = Some ''Contact is tagged as Elder - cultural protocols apply'',
                   actions_blocked = actions_blocked r0 @ outreach_actions,
                   recommended_action = Some ''Flag for human review before any communication''\<rparr>
                else r0);
          r2 = (if field_truthy custom_fields ''elder_review_required'' then
                  \<lparr>requires_review = True,
                   reason = Some ''Contact has elder_review_required flag set'',
                   actions_blocked = actions_blocked r1 @ outreach_actions,
                   recommended_action = Some ''Human approval required before any action''\<rparr>
                else r1);
          r3 = (if cultural_tags ts \<noteq> [] then
                  \<lparr>requires_review = True,
                   reason = Some (''Contact has cultural tags: '' @ join '', '' (cultural_tags ts)),
                   actions_blocked = actions_blocked r2 @ [''bulk_operations''],
                   recommended_action = Some ''Review cultural context before communication''\<rparr>
                else r2);
          r4 = (if field_truthy custom_fields ''sacred_knowledge'' then
                  \<lparr>requires_review = True,
                   reason = Some ''CRITICAL: Sacred knowledge detected - FULL BLOCK'',
                   actions_blocked = actions_blocked r3 @ all_actions,
                   recommended_action = Some ''IMMEDIATELY escalate to ACT Cultural Advisor''\<rparr>
                else r3)
      in \<lparr>requires_review = requires_review r4,
          reason = reason r4,
          actions_blocked = actions_blocked r4,
          recommended_action = recommended_action r4,
          res_contact_id = cid c,
          res_contact_name = strip (or_empty (firstName c) @ '' '' @ or_empty (lastName c))\<rparr>)"

section \<open>GHLTool: the mock contact store\<close>

text \<open>
  The state of a \<open>GHLTool\<close>: its two attributes, and what it has printed. A printed
  block of \<open>log_cultural_protocol_check\<close> is kept as the pair of the log level and the
  check result it is formatted from. Each contact owns its tag list and its field
  dictionary, as \<open>_load_mock_data\<close> builds them, so the state holds contacts by value.
\<close>

record ghl_tool =
  mock_mode :: bool
  mock_contacts :: "contact list"
  printed :: "(string \<times> check_result) list"

definition load_mock_data :: "contact list" where
  "load_mock_data =
    [\<lparr>cid = ''contact_001'', email = Some ''jane.smith@example.com'',
      firstName = Some ''Jane'', lastName = Some ''Smith'', phone = Some ''+61412345678'',
      companyName = None,
      tags = Some [''empathy-ledger'', ''role:storyteller'', ''engagement:active''],
      customFields = Some
        [(''supabase_user_id'', PStr ''uuid-123-storyteller''),
         (''storyteller_status'', PStr ''Active''),
         (''stories_count'', PInt 5),
         (''consent_status'', PStr ''Full consent''),
         (''ai_processing_consent'', PStr ''Yes'')]\<rparr>,
     \<lparr>cid = ''contact_002'', email = Some ''john.doe@example.com'',
      firstName = Some ''John'', lastName = Some ''Doe'', phone = Some ''+61423456789'',
      companyName = None,
      tags = Some [''act-farm'', ''role:resident'', ''engagement:alumni'',
                   ''interest:storytelling'', ''category:artist''],
      customFields = Some
        [(''residency_type'', PStr ''Creative Residency''),
         (''residency_dates'', PStr ''2025-03-15 to 2025-03-22''),
         (''residency_completed'', PBool True),
         (''research_focus'', PStr ''Environmental art and conservation storytelling'')]\<rparr>,
     \<lparr>cid = ''contact_003'', email = Some ''elder.mary@example.com'',
      firstName = Some ''Mary'', lastName = Some ''Johnson'', phone = Some ''+61434567890'',
      companyName = None,
      tags = Some [''empathy-ledger'', ''the-harvest'', ''role:elder'', ''cultural:kabi-kabi'',
                   ''priority:high'', ''engagement:active''],
      customFields = Some
        [(''supabase_user_id'', PStr ''uuid-456-elder''),
         (''cultural_protocols'',
            PStr ''Kabi Kabi Elder - requires cultural review for all communications''),
         (''elder_review_required'', PBool True),
         (''stories_count'', PInt 12),
         (''volunteer_hours_total'', PInt 240)]\<rparr>,
     \<lparr>cid = ''contact_004'', email = Some ''sarah.chen@university.edu.au'',
      firstName = Some ''Sarah'', lastName = Some ''Chen'', phone = Some ''+61445678901'',
      companyName = Some ''University of Queensland'',
      tags = Some [''empathy-ledger'', ''role:partner'', ''engagement:lead'',
                   ''category:organization'', ''category:university'', ''lead:saas''],
      customFields = Some
        [(''organization_type'', PStr ''University''),
         (''estimated_users'', PInt 500),
         (''pilot_interest'', PBool True),
         (''arr'', PInt 6000),
         (''customer_health_score'', PInt 85)]\<rparr>,
     \<lparr>cid = ''contact_005'', email = Some ''michael.brown@example.com'',
      firstName = Some ''Michael'', lastName = Some ''Brown'', phone = Some ''+61456789012'',
      companyName = None,
      tags = Some [''the-harvest'', ''role:volunteer'', ''engagement:active'',
                   ''interest:conservation'', ''interest:regenerative-agriculture''],
      customFields = Some
        [(''volunteer_interests'',
            PStrList [''Gardening & land care'', ''Conservation projects'']),
         (''volunteer_hours_total'', PInt 65),
         (''volunteer_orientation_completed'', PBool True),
         (''membership_level'', PStr ''Supporter ($100/year)'')]\<rparr>]"

text \<open>
  \<open>__init__\<close>: the argument is the value of the environment variable
  \<open>ENABLE_GHL_INTEGRATION\<close>, \<open>None\<close> when it is not set.
\<close>

definition init :: "string option \<Rightarrow> ghl_tool" where
  "init env =
     (let mm = (lower (case env of None \<Rightarrow> ''false'' | Some v \<Rightarrow> v) \<noteq> ''true'')
      in \<lparr>mock_mode = mm,
          mock_contacts = (if mm then load_mock_data else []),
          printed = []\<rparr>)"

definition log_cultural_protocol_check :: "check_result \<Rightarrow> string \<Rightarrow> ghl_tool \<Rightarrow> ghl_tool" where
  "log_cultural_protocol_check check log_level st =
     (if requires_review check then st\<lparr>printed := printed st @ [(log_level, check)]\<rparr> else st)"

text \<open>
  \<open>next((c for c in self.mock_contacts if c['id'] == contact_id), None)\<close> is
  \<open>find\<close>. The code then mutates the dictionary it found; \<open>store_put\<close> writes a
  changed contact back in the place of the first contact with its id.
\<close>

definition lookup :: "string \<Rightarrow> contact list \<Rightarrow> contact option" where
  "lookup contact_id cs = find (\<lambda>c. cid c = contact_id) cs"

fun store_put :: "contact \<Rightarrow> contact list \<Rightarrow> contact list" where
  "store_put c [] = []"
| "store_put c (x # xs) = (if cid x = cid c then c # xs else x # store_put c xs)"

definition get_contact :: "string \<Rightarrow> ghl_tool \<Rightarrow> (error + contact) \<times> ghl_tool" where
  "get_contact contact_id st =
     (if mock_mode st then
        (case lookup contact_id (mock_contacts st) of
           None \<Rightarrow> (Inl (ValueError (''Contact not found: '' @ contact_id)), st)
         | Some c \<Rightarrow>
             (let check = check_contact_cultural_protocols c;
                  st1 = (if requires_review check
                         then log_cultural_protocol_check check ''WARNING'' st else st)
              in (Inr c, st1)))
      else (Inl NotImplementedError, st))"

text \<open>
  The \<open>updates\<close> dictionary of \<open>update_contact\<close>: only the keys \<open>tags\<close> and
  \<open>customFields\<close> are read.
\<close>

record updates =
  u_tags :: "string list option"
  u_customFields :: "pyval dict option"

text \<open>
  The loop \<open>for field in ...keys(): self.check_cultural_protocol(field, operation)\<close>,
  and \<open>update_contact\<close>. A contact that \<open>get_contact\<close> returns is a dictionary
  with an \<open>id\<close>, so the test \<open>if contact:\<close> always succeeds. When the update has
  \<open>customFields\<close> and the contact has none, \<open>contact['customFields']\<close> raises
  \<open>KeyError\<close> after the tags were assigned.
\<close>

fun check_fields :: "string list \<Rightarrow> string \<Rightarrow> error + unit" where
  "check_fields [] operation = Inr ()"
| "check_fields (field # rest) operation =
     (case check_cultural_protocol field operation None of
        Inl e \<Rightarrow> Inl e
      | Inr _ \<Rightarrow> check_fields rest operation)"

definition update_contact ::
  "string \<Rightarrow> updates \<Rightarrow> ghl_tool \<Rightarrow> (error + contact) \<times> ghl_tool" where
  "update_contact contact_id upd st =
     (case check_fields
             (dict_keys (case u_customFields upd of None \<Rightarrow> [] | Some d \<Rightarrow> d)) ''write'' of
        Inl e \<Rightarrow> (Inl e, st)
      | Inr _ \<Rightarrow>
          if mock_mode st then
            (case get_contact contact_id st of
               (Inl e, st1) \<Rightarrow> (Inl e, st1)
             | (Inr c, st1) \<Rightarrow>
                 (let c1 = (case u_tags upd of None \<Rightarrow> c | Some ts \<Rightarrow> c\<lparr>tags := Some ts\<rparr>);
                      st2 = st1\<lparr>mock_contacts := store_put c1 (mock_contacts st1)\<rparr>
                  in case u_customFields upd of
                       None \<Rightarrow>
                         (Inr c1,
                          (let check = check_contact_cultural_protocols c1
                           in if requires_review check
                              then log_cultural_protocol_check check ''INFO'' st2 else st2))
                     | Some d \<Rightarrow>
                         (case customFields c1 of
                            None \<Rightarrow> (Inl (KeyError ''customFields''), st2)
                          | Some old \<Rightarrow>
                              (let c2 = c1\<lparr>customFields := Some (dict_update old d)\<rparr>;
                                   st3 = st2\<lparr>mock_contacts := store_put c2 (mock_contacts st2)\<rparr>;
                                   check = check_contact_cultural_protocols c2
                               in (Inr c2,
                                   if requires_review check
                                   then log_cultural_protocol_check check ''INFO'' st3
                                   else st3)))))
          else (Inl NotImplementedError, st))"

text \<open>
  \<open>add_tag\<close>: \<open>tags = contact.get('tags', [])\<close> is the stored list itself when the
  contact has the key, so \<open>tags.append(tag)\<close> already changes the stored contact
  before \<open>update_contact\<close> is called; without the key it is a fresh list.
\<close>

definition add_tag :: "string \<Rightarrow> string \<Rightarrow> ghl_tool \<Rightarrow> (error + contact) \<times> ghl_tool" where
  "add_tag contact_id tag st =
     (case get_contact contact_id st of
        (Inl e, st1) \<Rightarrow> (Inl e, st1)
      | (Inr c, st1) \<Rightarrow>
          if tag \<notin> set (get_tags c) then
            (let ts = get_tags c @ [tag];
                 st2 = (case tags c of
                          None \<Rightarrow> st1
                        | Some _ \<Rightarrow>
                            st1\<lparr>mock_contacts :=
                                  store_put (c\<lparr>tags := Some ts\<rparr>) (mock_contacts st1)\<rparr>)
             in update_contact contact_id \<lparr>u_tags = Some ts, u_customFields = None\<rparr> st2)
          else (Inr c, st1))"

section \<open>GHLTool: searching\<close>

text \<open>
  Python's \<open>==\<close> and \<open>>=\<close> on the modelled values. A boolean compares as the
  integer 0 or 1; strings and lists compare lexicographically; \<open>>=\<close> between values
  of different kinds, or on \<open>None\<close>, raises \<open>TypeError\<close>. In \<open>lex_ge\<close> the order
  \<open>gt\<close> on elements is asked only at the first position where the two lists differ.
\<close>

definition bool_int :: "bool \<Rightarrow> int" where
  "bool_int b = (if b then 1 else 0)"

fun py_eq :: "pyval \<Rightarrow> pyval \<Rightarrow> bool" where
  "py_eq (PBool a) (PBool b) = (a = b)"
| "py_eq (PBool a) (PInt j) = (bool_int a = j)"
| "py_eq (PInt i) (PBool b) = (i = bool_int b)"
| "py_eq a b = (a = b)"

fun lex_ge :: "('a \<Rightarrow> 'a \<Rightarrow> bool) \<Rightarrow> 'a list \<Rightarrow> 'a list \<Rightarrow> bool" where
  "lex_ge gt xs [] = True"
| "lex_ge gt [] (y # ys) = False"
| "lex_ge gt (x # xs) (y # ys) = (if x = y then lex_ge gt xs ys else gt x y)"

definition str_ge :: "string \<Rightarrow> string \<Rightarrow> bool" where
  "str_ge a b = lex_ge (\<lambda>x y. (of_char x :: nat) > of_char y) a b"

fun py_ge :: "pyval \<Rightarrow> pyval \<Rightarrow> error + bool" where
  "py_ge (PInt i) (PInt j) = Inr (i \<ge> j)"
| "py_ge (PInt i) (PBool b) = Inr (i \<ge> bool_int b)"
| "py_ge (PBool a) (PInt j) = Inr (bool_int a \<ge> j)"
| "py_ge (PBool a) (PBool b) = Inr (bool_int a \<ge> bool_int b)"
| "py_ge (PStr a) (PStr b) = Inr (str_ge a b)"
| "py_ge (PStrList a) (PStrList b) = Inr (lex_ge str_ge a b)"
| "py_ge a b = Inl TypeError"

text \<open>
  The \<open>filters\<close> dictionary of \<open>search_contacts\<close>: the keys \<open>tags\<close> and
  \<open>customFieldFilters\<close>; a condition is a dictionary from operator names
  (\<open>$gte\<close>, \<open>$eq\<close>, \<open>$exists\<close>) to values.
\<close>

record filters =
  f_tags :: "string list option"
  f_customFieldFilters :: "(pyval dict) dict option"

text \<open>
  The list comprehension of the \<open>$gte\<close> branch, which raises as soon as one
  comparison does. A contact without the field compares with the default 0.
\<close>

fun filter_gte :: "string \<Rightarrow> pyval \<Rightarrow> contact list \<Rightarrow> error + contact list" where
  "filter_gte field v [] = Inr []"
| "filter_gte field v (c # cs) =
     (case py_ge (case dict_get (get_customFields c) field of None \<Rightarrow> PInt 0 | Some x \<Rightarrow> x) v of
        Inl e \<Rightarrow> Inl e
      | Inr b \<Rightarrow>
          (case filter_gte field v cs of
             Inl e \<Rightarrow> Inl e
           | Inr rs \<Rightarrow> Inr (if b then c # rs else rs)))"

definition apply_condition ::
  "string \<Rightarrow> pyval dict \<Rightarrow> contact list \<Rightarrow> error + contact list" where
  "apply_condition field condition results =
     (case dict_get condition ''$gte'' of
        Some v \<Rightarrow> filter_gte field v results
      | None \<Rightarrow>
          (case dict_get condition ''$eq'' of
             Some v \<Rightarrow>
               Inr (filter (\<lambda>c. py_eq (case dict_get (get_customFields c) field of
                                          None \<Rightarrow> PNone | Some x \<Rightarrow> x) v) results)
           | None \<Rightarrow>
               (case dict_get condition ''$exists'' of
                  Some v \<Rightarrow>
                    Inr (filter (\<lambda>c. py_eq (PBool (dict_has field (get_customFields c))) v)
                           results)
                | None \<Rightarrow> Inr results)))"

fun apply_conditions :: "(pyval dict) dict \<Rightarrow> contact list \<Rightarrow> error + contact list" where
  "apply_conditions [] results = Inr results"
| "apply_conditions ((field, condition) # rest) results =
     (case apply_condition field condition results of
        Inl e \<Rightarrow> Inl e
      | Inr rs \<Rightarrow> apply_conditions rest rs)"

definition filter_by_tags :: "string list option \<Rightarrow> contact list \<Rightarrow> contact list" where
  "filter_by_tags wanted results =
     (case wanted of
        None \<Rightarrow> results
      | Some ws \<Rightarrow>
          if ws \<noteq> [] then filter (\<lambda>c. list_ex (\<lambda>tag. tag \<in> set (get_tags c)) ws) results
          else results)"

text \<open>
  \<open>search_contacts(filters)\<close>; the argument \<open>None\<close> stands for the empty
  dictionary. The search neither changes the store nor prints.
\<close>

definition search_contacts :: "filters option \<Rightarrow> ghl_tool \<Rightarrow> error + contact list" where
  "search_contacts fopt st =
     (let fl = (case fopt of
                  None \<Rightarrow> \<lparr>f_tags = None, f_customFieldFilters = None\<rparr>
                | Some f \<Rightarrow> f)
      in case check_fields
                (dict_keys (case f_customFieldFilters fl of None \<Rightarrow> [] | Some d \<Rightarrow> d))
                ''read'' of
           Inl e \<Rightarrow> Inl e
         | Inr _ \<Rightarrow>
             if mock_mode st then
               (let results = filter_by_tags (f_tags fl) (mock_contacts st)
                in case f_customFieldFilters fl of
                     None \<Rightarrow> Inr results
                   | Some d \<Rightarrow> apply_conditions d results)
             else Inl NotImplementedError)"

section \<open>The field policy: tiers\<close>

text \<open>
  C1. Every field of \<open>BLOCKED_FIELDS\<close> is refused for read, write and delete with the
  blocked-field violation, whatever the context argument is: no input of the check
  lets a blocked field through.
\<close>

theorem blocked_fields_always_refused:
  assumes "f \<in> set BLOCKED_FIELDS"
    and "a \<in> {''read'', ''write'', ''delete''}"
  shows "check_cultural_protocol f a ctx = Inl (PermissionError (Blocked f a))"
  using assms by (simp add: check_cultural_protocol_def)

theorem blocked_fields_always_refused_witness:
  "''sacred_knowledge'' \<in> set BLOCKED_FIELDS
   \<and> ''read'' \<in> {''read'', ''write'', ''delete''}
   \<and> check_cultural_protocol ''sacred_knowledge'' ''read'' (Some [(''admin'', PBool True)])
       = Inl (PermissionError (Blocked ''sacred_knowledge'' ''read''))"
proof -
  have m: "''sacred_knowledge'' \<in> set BLOCKED_FIELDS"
    by (simp add: BLOCKED_FIELDS_def)
  have a: "''read'' \<in> {''read'', ''write'', ''delete''}"
    by simp
  from blocked_fields_always_refused [OF m a, of "Some [(''admin'', PBool True)]"] m a
  show ?thesis by simp
qed

text \<open>
  C5. Every field of \<open>READ_ONLY_FIELDS\<close> may be read, and is refused for write and for
  delete with the read-only violation.
\<close>

theorem read_only_fields_read_but_not_modified:
  assumes "f \<in> set READ_ONLY_FIELDS"
  shows "check_cultural_protocol f ''read'' ctx = Inr ()
       \<and> check_cultural_protocol f ''write'' ctx = Inl (PermissionError (ReadOnly f ''write''))
       \<and> check_cultural_protocol f ''delete'' ctx = Inl (PermissionError (ReadOnly f ''delete''))"
proof -
  from assms have nb: "f \<notin> set BLOCKED_FIELDS"
    by (auto simp: READ_ONLY_FIELDS_def BLOCKED_FIELDS_def)
  with assms show ?thesis
    by (simp add: check_cultural_protocol_def)
qed

theorem read_only_fields_read_but_not_modified_witness:
  "''supabase_user_id'' \<in> set READ_ONLY_FIELDS
   \<and> check_cultural_protocol ''supabase_user_id'' ''read'' None = Inr ()
   \<and> check_cultural_protocol ''supabase_user_id'' ''write'' None
       = Inl (PermissionError (ReadOnly ''supabase_user_id'' ''write''))
   \<and> check_cultural_protocol ''supabase_user_id'' ''delete'' None
       = Inl (PermissionError (ReadOnly ''supabase_user_id'' ''delete''))"
proof -
  have m: "''supabase_user_id'' \<in> set READ_ONLY_FIELDS"
    by (simp add: READ_ONLY_FIELDS_def)
  from read_only_fields_read_but_not_modified [OF m, of None] m
  show ?thesis by simp
qed

text \<open>
  C6. A field that is in neither list is open: the check returns normally for read,
  write and delete.
\<close>

theorem unlisted_fields_are_open:
  assumes "f \<notin> set BLOCKED_FIELDS"
    and "f \<notin> set READ_ONLY_FIELDS"
    and "a \<in> {''read'', ''write'', ''delete''}"
  shows "check_cultural_protocol f a ctx = Inr ()"
  using assms by (simp add: check_cultural_protocol_def)

theorem unlisted_fields_are_open_witness:
  "''stories_count'' \<notin> set BLOCKED_FIELDS
   \<and> ''stories_count'' \<notin> set READ_ONLY_FIELDS
   \<and> ''delete'' \<in> {''read'', ''write'', ''delete''}
   \<and> check_cultural_protocol ''stories_count'' ''delete'' None = Inr ()"
proof -
  have b: "''stories_count'' \<notin> set BLOCKED_FIELDS"
    by (simp add: BLOCKED_FIELDS_def)
  have r: "''stories_count'' \<notin> set READ_ONLY_FIELDS"
    by (simp add: READ_ONLY_FIELDS_def)
  have a: "''delete'' \<in> {''read'', ''write'', ''delete''}"
    by simp
  from unlisted_fields_are_open [OF b r a, of None] b r a
  show ?thesis by simp
qed

section \<open>Checks run before the store is touched\<close>

text \<open>
  The checking loop returns the error of the first field, in key order, whose check
  fails, and returns normally when no check fails.
\<close>

lemma check_fields_first_failure:
  "check_fields fs operation =
     (case filter (\<lambda>k. check_cultural_protocol k operation None \<noteq> Inr ()) fs of
        [] \<Rightarrow> Inr ()
      | k # _ \<Rightarrow> check_cultural_protocol k operation None)"
  by (induction fs) (auto split: sum.splits list.splits)

lemma read_fails_iff:
  "(check_cultural_protocol k ''read'' None \<noteq> Inr ()) = (k \<in> set BLOCKED_FIELDS)"
  by (simp add: check_cultural_protocol_def)

lemma write_fails_iff:
  "(check_cultural_protocol k ''write'' None \<noteq> Inr ())
     = (k \<in> set BLOCKED_FIELDS \<or> k \<in> set READ_ONLY_FIELDS)"
  by (simp add: check_cultural_protocol_def)

lemma check_fields_read_blocked:
  assumes "f \<in> set fs" and "f \<in> set BLOCKED_FIELDS"
  shows "check_fields fs ''read''
           = Inl (PermissionError
                    (Blocked (hd (filter (\<lambda>k. k \<in> set BLOCKED_FIELDS) fs)) ''read''))"
proof -
  from assms have "filter (\<lambda>k. k \<in> set BLOCKED_FIELDS) fs \<noteq> []"
    by (auto simp: filter_empty_conv)
  then obtain k ks where kk: "filter (\<lambda>k. k \<in> set BLOCKED_FIELDS) fs = k # ks"
    by (cases "filter (\<lambda>k. k \<in> set BLOCKED_FIELDS) fs") auto
  then have "k \<in> set (filter (\<lambda>k. k \<in> set BLOCKED_FIELDS) fs)"
    by simp
  then have kb: "k \<in> set BLOCKED_FIELDS"
    by simp
  show ?thesis
    unfolding check_fields_first_failure read_fails_iff kk
    using kb by (simp add: check_cultural_protocol_def)
qed

lemma check_fields_write_refused:
  assumes "f \<in> set fs" and "f \<in> set BLOCKED_FIELDS \<or> f \<in> set READ_ONLY_FIELDS"
  shows "check_fields fs ''write''
           = (let k = hd (filter (\<lambda>k. k \<in> set BLOCKED_FIELDS \<or> k \<in> set READ_ONLY_FIELDS) fs)
              in Inl (PermissionError
                        (if k \<in> set BLOCKED_FIELDS then Blocked k ''write''
                         else ReadOnly k ''write'')))"
proof -
  let ?P = "\<lambda>k. k \<in> set BLOCKED_FIELDS \<or> k \<in> set READ_ONLY_FIELDS"
  from assms have "filter ?P fs \<noteq> []"
    by (auto simp: filter_empty_conv)
  then obtain k ks where kk: "filter ?P fs = k # ks"
    by (cases "filter ?P fs") auto
  then have "k \<in> set (filter ?P fs)"
    by simp
  then have kb: "?P k"
    by simp
  show ?thesis
    unfolding check_fields_first_failure write_fails_iff kk
    using kb by (auto simp: check_cultural_protocol_def)
qed

lemma update_contact_refused:
  assumes "u_customFields upd = Some d"
    and "f \<in> set (dict_keys d)"
    and "f \<in> set BLOCKED_FIELDS \<or> f \<in> set READ_ONLY_FIELDS"
  shows "update_contact contact_id upd st
           = (let k = hd (filter (\<lambda>k. k \<in> set BLOCKED_FIELDS \<or> k \<in> set READ_ONLY_FIELDS)
                                 (dict_keys d))
              in (Inl (PermissionError
                         (if k \<in> set BLOCKED_FIELDS then Blocked k ''write''
                          else ReadOnly k ''write'')), st))"
  unfolding update_contact_def
  by (simp add: assms(1) check_fields_write_refused [OF assms(2,3)] Let_def)

text \<open>
  C2. When some key of the update's \<open>customFields\<close> is a blocked or read-only field,
  \<open>update_contact\<close> changes nothing: the tool's state after the call is the state
  before it, so the stored record keeps every one of its fields, the permitted ones
  of the update included.
\<close>

theorem refused_update_changes_nothing:
  assumes "u_customFields upd = Some d"
    and "f \<in> set (dict_keys d)"
    and "f \<in> set BLOCKED_FIELDS \<or> f \<in> set READ_ONLY_FIELDS"
  shows "snd (update_contact contact_id upd st) = st
       \<and> lookup contact_id (mock_contacts (snd (update_contact contact_id upd st)))
           = lookup contact_id (mock_contacts st)"
  by (simp add: update_contact_refused [OF assms] Let_def)

theorem refused_update_changes_nothing_witness:
  "u_customFields \<lparr>u_tags = Some [''vip''],
                   u_customFields = Some [(''stories_count'', PInt 6),
                                          (''sacred_knowledge'', PStr ''y'')]\<rparr>
     = Some [(''stories_count'', PInt 6), (''sacred_knowledge'', PStr ''y'')]
   \<and> ''sacred_knowledge''
       \<in> set (dict_keys [(''stories_count'', PInt 6), (''sacred_knowledge'', PStr ''y'')])
   \<and> (''sacred_knowledge'' \<in> set BLOCKED_FIELDS \<or> ''sacred_knowledge'' \<in> set READ_ONLY_FIELDS)
   \<and> snd (update_contact ''contact_001''
            \<lparr>u_tags = Some [''vip''],
             u_customFields = Some [(''stories_count'', PInt 6),
                                    (''sacred_knowledge'', PStr ''y'')]\<rparr>
            (init None)) = init None
   \<and> lookup ''contact_001''
        (mock_contacts (snd (update_contact ''contact_001''
            \<lparr>u_tags = Some [''vip''],
             u_customFields = Some [(''stories_count'', PInt 6),
                                    (''sacred_knowledge'', PStr ''y'')]\<rparr>
            (init None))))
       = lookup ''contact_001'' (mock_contacts (init None))"
proof -
  let ?d = "[(''stories_count'', PInt 6), (''sacred_knowledge'', PStr ''y'')]"
  let ?u = "\<lparr>u_tags = Some [''vip''], u_customFields = Some ?d\<rparr>"
  have a: "u_customFields ?u = Some ?d"
    by simp
  have b: "''sacred_knowledge'' \<in> set (dict_keys ?d)"
    by (simp add: dict_keys_def)
  have c: "''sacred_knowledge'' \<in> set BLOCKED_FIELDS \<or> ''sacred_knowledge'' \<in> set READ_ONLY_FIELDS"
    by (simp add: BLOCKED_FIELDS_def)
  from refused_update_changes_nothing [OF a b c, of "''contact_001''" "init None"] a b c
  show ?thesis by simp
qed

text \<open>
  C10. The write checks of \<open>update_contact\<close> come before the lookup of the contact:
  with a blocked or read-only key among the update's \<open>customFields\<close> the call raises
  the \<open>PermissionError\<close> of the first such key, for every contact id and every
  state of the tool (also one that has no contact of that id, where a lookup would
  raise \<open>ValueError\<close>, and one outside mock mode), and hands the state back as it was.
\<close>

theorem update_policy_check_precedes_lookup:
  assumes "u_customFields upd = Some d"
    and "f \<in> set (dict_keys d)"
    and "f \<in> set BLOCKED_FIELDS \<or> f \<in> set READ_ONLY_FIELDS"
  shows "\<exists>k v. k \<in> set (dict_keys d)
            \<and> k = hd (filter (\<lambda>k. k \<in> set BLOCKED_FIELDS \<or> k \<in> set READ_ONLY_FIELDS)
                              (dict_keys d))
            \<and> v = (if k \<in> set BLOCKED_FIELDS then Blocked k ''write'' else ReadOnly k ''write'')
            \<and> (\<forall>contact_id st.
                   update_contact contact_id upd st = (Inl (PermissionError v), st))"
proof -
  let ?P = "\<lambda>k. k \<in> set BLOCKED_FIELDS \<or> k \<in> set READ_ONLY_FIELDS"
  let ?k = "hd (filter ?P (dict_keys d))"
  from assms(2,3) have "filter ?P (dict_keys d) \<noteq> []"
    by (auto simp: filter_empty_conv)
  then have "?k \<in> set (filter ?P (dict_keys d))"
    by (rule hd_in_set)
  then have "?k \<in> set (dict_keys d)"
    by simp
  moreover have "\<forall>contact_id st.
      update_contact contact_id upd st
        = (Inl (PermissionError
                  (if ?k \<in> set BLOCKED_FIELDS then Blocked ?k ''write''
                   else ReadOnly ?k ''write'')), st)"
    by (simp add: update_contact_refused [OF assms] Let_def)
  ultimately show ?thesis
    by blast
qed

theorem update_policy_check_precedes_lookup_witness:
  "u_customFields \<lparr>u_tags = None,
                   u_customFields = Some [(''notes'', PStr ''x''),
                                          (''cultural_protocols'', PStr ''new text'')]\<rparr>
     = Some [(''notes'', PStr ''x''), (''cultural_protocols'', PStr ''new text'')]
   \<and> ''cultural_protocols''
        \<in> set (dict_keys [(''notes'', PStr ''x''), (''cultural_protocols'', PStr ''new text'')])
   \<and> (''cultural_protocols'' \<in> set BLOCKED_FIELDS
        \<or> ''cultural_protocols'' \<in> set READ_ONLY_FIELDS)
   \<and> lookup ''contact_999'' (mock_contacts (init None)) = None
   \<and> update_contact ''contact_999''
        \<lparr>u_tags = None,
         u_customFields = Some [(''notes'', PStr ''x''),
                                (''cultural_protocols'', PStr ''new text'')]\<rparr>
        (init None)
       = (Inl (PermissionError (ReadOnly ''cultural_protocols'' ''write'')), init None)"
proof -
  let ?d = "[(''notes'', PStr ''x''), (''cultural_protocols'', PStr ''new text'')]"
  let ?u = "\<lparr>u_tags = None, u_customFields = Some ?d\<rparr>"
  have a: "u_customFields ?u = Some ?d"
    by simp
  have b: "''cultural_protocols'' \<in> set (dict_keys ?d)"
    by (simp add: dict_keys_def)
  have c: "''cultural_protocols'' \<in> set BLOCKED_FIELDS
             \<or> ''cultural_protocols'' \<in> set READ_ONLY_FIELDS"
    by (simp add: READ_ONLY_FIELDS_def)
  have k: "hd (filter (\<lambda>k. k \<in> set BLOCKED_FIELDS \<or> k \<in> set READ_ONLY_FIELDS) (dict_keys ?d))
             = ''cultural_protocols''"
    by (simp add: dict_keys_def BLOCKED_FIELDS_def READ_ONLY_FIELDS_def)
  have nb: "''cultural_protocols'' \<notin> set BLOCKED_FIELDS"
    by (simp add: BLOCKED_FIELDS_def)
  have l: "lookup ''contact_999'' (mock_contacts (init None)) = None"
    by (simp add: lookup_def init_def lower_def load_mock_data_def)
  from update_policy_check_precedes_lookup [OF a b c]
  have "update_contact ''contact_999'' ?u (init None)
          = (Inl (PermissionError (ReadOnly ''cultural_protocols'' ''write'')), init None)"
    unfolding k using nb by auto
  with a b c l show ?thesis
    by blast
qed

text \<open>
  C3. A search whose \<open>customFieldFilters\<close> name a blocked field raises the blocked-field
  \<open>PermissionError\<close> of the first such key and returns no records. The error does
  not depend on the state of the tool: the contacts are not looked at, whatever the
  other conditions and the tag filter would have matched.
\<close>

theorem search_on_blocked_field_refused:
  assumes "f_customFieldFilters fl = Some d"
    and "f \<in> set (dict_keys d)"
    and "f \<in> set BLOCKED_FIELDS"
  shows "search_contacts (Some fl) st
           = Inl (PermissionError
                    (Blocked (hd (filter (\<lambda>k. k \<in> set BLOCKED_FIELDS) (dict_keys d))) ''read''))"
  unfolding search_contacts_def
  by (simp add: assms(1) check_fields_read_blocked [OF assms(2,3)])

theorem search_on_blocked_field_refused_witness:
  "f_customFieldFilters
      \<lparr>f_tags = Some [''empathy-ledger''],
       f_customFieldFilters = Some [(''stories_count'', [(''$gte'', PInt 3)]),
                                    (''elder_consent'', [(''$exists'', PBool True)])]\<rparr>
     = Some [(''stories_count'', [(''$gte'', PInt 3)]),
             (''elder_consent'', [(''$exists'', PBool True)])]
   \<and> ''elder_consent''
        \<in> set (dict_keys [(''stories_count'', [(''$gte'', PInt 3)]),
                           (''elder_consent'', [(''$exists'', PBool True)])])
   \<and> ''elder_consent'' \<in> set BLOCKED_FIELDS
   \<and> search_contacts
        (Some \<lparr>f_tags = Some [''empathy-ledger''],
               f_customFieldFilters = Some [(''stories_count'', [(''$gte'', PInt 3)]),
                                            (''elder_consent'', [(''$exists'', PBool True)])]\<rparr>)
        (init None)
       = Inl (PermissionError (Blocked ''elder_consent'' ''read''))"
proof -
  let ?d = "[(''stories_count'', [(''$gte'', PInt 3)]),
             (''elder_consent'', [(''$exists'', PBool True)])]"
  let ?fl = "\<lparr>f_tags = Some [''empathy-ledger''], f_customFieldFilters = Some ?d\<rparr>"
  have a: "f_customFieldFilters ?fl = Some ?d"
    by simp
  have b: "''elder_consent'' \<in> set (dict_keys ?d)"
    by (simp add: dict_keys_def)
  have c: "''elder_consent'' \<in> set BLOCKED_FIELDS"
    by (simp add: BLOCKED_FIELDS_def)
  have k: "hd (filter (\<lambda>k. k \<in> set BLOCKED_FIELDS) (dict_keys ?d)) = ''elder_consent''"
    by (simp add: dict_keys_def BLOCKED_FIELDS_def)
  from search_on_blocked_field_refused [OF a b c, of "init None"]
  have "search_contacts (Some ?fl) (init None)
          = Inl (PermissionError (Blocked ''elder_consent'' ''read''))"
    unfolding k .
  with a b c show ?thesis
    by blast
qed

section \<open>The review classifier\<close>

text \<open>
  The substring test finds a pattern wherever it occurs, and lowering a tag lowers each
  of its parts.
\<close>

lemma startswith_append: "startswith (p @ s) p"
  by (induction p) auto

lemma contains_self_prefix: "contains p (p @ s)"
proof (cases "p @ s")
  case Nil
  then show ?thesis by simp
next
  case (Cons x xs)
  have "startswith (p @ s) p"
    by (rule startswith_append)
  then have "startswith (x # xs) p"
    by (simp only: Cons)
  then have "contains p (x # xs)"
    by simp
  then show ?thesis
    by (simp only: Cons)
qed

lemma contains_append: "contains p (a @ p @ b)"
proof (induction a)
  case Nil
  show ?case by (simp add: contains_self_prefix)
next
  case (Cons c a)
  then show ?case by simp
qed

lemma lower_append: "lower (a @ b) = lower a @ lower b"
  by (simp add: lower_def)

lemma elder_in_any_case:
  assumes "map lower_char w = ''elder''"
  shows "contains ''elder'' (lower (pre @ w @ post))"
proof -
  have "lower (pre @ w @ post) = lower pre @ ''elder'' @ lower post"
    using assms by (simp add: lower_def)
  then show ?thesis
    by (simp only: contains_append)
qed

text \<open>
  The classifier in closed form: which of its four rules matched decides every key of
  the result.
\<close>

lemma classifier_characterisation:
  "check_contact_cultural_protocols c =
     (let a = has_elder_tag (get_tags c);
          b = field_truthy (get_customFields c) ''elder_review_required'';
          cu = (cultural_tags (get_tags c) \<noteq> []);
          d = field_truthy (get_customFields c) ''sacred_knowledge''
      in \<lparr>requires_review = (a \<or> b \<or> cu \<or> d),
          reason =
            (if d then Some ''CRITICAL: Sacred knowledge detected - FULL BLOCK''
             else if cu then Some (''Contact has cultural tags: ''
                                    @ join '', '' (cultural_tags (get_tags c)))
             else if b then Some ''Contact has elder_review_required flag set''
             else if a then Some ''Contact is tagged as Elder - cultural protocols apply''
             else None),
          actions_blocked =
            (if a then outreach_actions else [])
            @ (if b then outreach_actions else [])
            @ (if cu then [''bulk_operations''] else [])
            @ (if d then all_actions else []),
          recommended_action =
            (if d then Some ''IMMEDIATELY escalate to ACT Cultural Advisor''
             else if cu then Some ''Review cultural context before communication''
             else if b then Some ''Human approval required before any action''
             else if a then Some ''Flag for human review before any communication''
             else None),
          res_contact_id = cid c,
          res_contact_name = strip (or_empty (firstName c) @ '' '' @ or_empty (lastName c))\<rparr>)"
  unfolding check_contact_cultural_protocols_def Let_def
  by simp

text \<open>
  C4. The classifier applies its four rules in the order (a) elder tag, (b)
  \<open>elder_review_required\<close> field, (c) tags that start with \<open>cultural:\<close>, (d)
  \<open>sacred_knowledge\<close> field. The reason and the recommended action are those of
  the last rule that matched (none when no rule matched); the blocked actions are
  the actions of every matched rule, appended in rule order, so that as a set they
  are the union of the matched rules' action sets.
\<close>

theorem classifier_last_rule_wins_actions_accumulate:
  "(let r = check_contact_cultural_protocols c;
        a = has_elder_tag (get_tags c);
        b = field_truthy (get_customFields c) ''elder_review_required'';
        cu = (cultural_tags (get_tags c) \<noteq> []);
        d = field_truthy (get_customFields c) ''sacred_knowledge''
    in requires_review r = (a \<or> b \<or> cu \<or> d)
     \<and> reason r =
         (if d then Some ''CRITICAL: Sacred knowledge detected - FULL BLOCK''
          else if cu then Some (''Contact has cultural tags: ''
                                 @ join '', '' (cultural_tags (get_tags c)))
          else if b then Some ''Contact has elder_review_required flag set''
          else if a then Some ''Contact is tagged as Elder - cultural protocols apply''
          else None)
     \<and> recommended_action r =
         (if d then Some ''IMMEDIATELY escalate to ACT Cultural Advisor''
          else if cu then Some ''Review cultural context before communication''
          else if b then Some ''Human approval required before any action''
          else if a then Some ''Flag for human review before any communication''
          else None)
     \<and> actions_blocked r =
         (if a then [''automated_email'', ''automated_outreach'', ''ai_generated_content'']
          else [])
         @ (if b then [''automated_email'', ''automated_outreach'', ''ai_generated_content'']
            else [])
         @ (if cu then [''bulk_operations''] else [])
         @ (if d then [''read'', ''write'', ''delete'', ''automated_email'',
                       ''automated_outreach'', ''ai_generated_content'', ''bulk_operations'']
            else [])
     \<and> set (actions_blocked r) =
         (if a then {''automated_email'', ''automated_outreach'', ''ai_generated_content''}
          else {})
         \<union> (if b then {''automated_email'', ''automated_outreach'', ''ai_generated_content''}
            else {})
         \<union> (if cu then {''bulk_operations''} else {})
         \<union> (if d then {''read'', ''write'', ''delete'', ''automated_email'',
                       ''automated_outreach'', ''ai_generated_content'', ''bulk_operations''}
            else {}))"
proof -
  let ?r = "check_contact_cultural_protocols c"
  let ?a = "has_elder_tag (get_tags c)"
  let ?b = "field_truthy (get_customFields c) ''elder_review_required''"
  let ?cu = "cultural_tags (get_tags c) \<noteq> []"
  let ?d = "field_truthy (get_customFields c) ''sacred_knowledge''"
  have rr: "requires_review ?r = (?a \<or> ?b \<or> ?cu \<or> ?d)"
    by (simp add: classifier_characterisation Let_def)
  have re: "reason ?r =
         (if ?d then Some ''CRITICAL: Sacred knowledge detected - FULL BLOCK''
          else if ?cu then Some (''Contact has cultural tags: ''
                                 @ join '', '' (cultural_tags (get_tags c)))
          else if ?b then Some ''Contact has elder_review_required flag set''
          else if ?a then Some ''Contact is tagged as Elder - cultural protocols apply''
          else None)"
    by (simp add: classifier_characterisation Let_def)
  have ra: "recommended_action ?r =
         (if ?d then Some ''IMMEDIATELY escalate to ACT Cultural Advisor''
          else if ?cu then Some ''Review cultural context before communication''
          else if ?b then Some ''Human approval required before any action''
          else if ?a then Some ''Flag for human review before any communication''
          else None)"
    by (simp add: classifier_characterisation Let_def)
  have ab: "actions_blocked ?r =
         (if ?a then [''automated_email'', ''automated_outreach'', ''ai_generated_content'']
          else [])
         @ (if ?b then [''automated_email'', ''automated_outreach'', ''ai_generated_content'']
            else [])
         @ (if ?cu then [''bulk_operations''] else [])
         @ (if ?d then [''read'', ''write'', ''delete'', ''automated_email'',
                       ''automated_outreach'', ''ai_generated_content'', ''bulk_operations'']
            else [])"
    by (simp add: classifier_characterisation Let_def outreach_actions_def all_actions_def)
  have s: "\<And>P (xs :: string list). set (if P then xs else []) = (if P then set xs else {})"
    by simp
  have sb: "set (actions_blocked ?r) =
         (if ?a then {''automated_email'', ''automated_outreach'', ''ai_generated_content''}
          else {})
         \<union> (if ?b then {''automated_email'', ''automated_outreach'', ''ai_generated_content''}
            else {})
         \<union> (if ?cu then {''bulk_operations''} else {})
         \<union> (if ?d then {''read'', ''write'', ''delete'', ''automated_email'',
                       ''automated_outreach'', ''ai_generated_content'', ''bulk_operations''}
            else {})"
    unfolding ab by (simp only: set_append s list.set Un_assoc)
  from rr re ra ab sb show ?thesis
    unfolding Let_def by blast
qed

theorem classifier_last_rule_wins_actions_accumulate_witness:
  "reason (check_contact_cultural_protocols
             \<lparr>cid = ''c9'', email = None, firstName = Some ''Ann'', lastName = None,
              phone = None, companyName = None,
              tags = Some [''role:elder'', ''cultural:kabi-kabi'', ''cultural:gubbi-gubbi''],
              customFields = Some [(''elder_review_required'', PBool True)]\<rparr>)
     = Some ''Contact has cultural tags: cultural:kabi-kabi, cultural:gubbi-gubbi''
   \<and> recommended_action (check_contact_cultural_protocols
             \<lparr>cid = ''c9'', email = None, firstName = Some ''Ann'', lastName = None,
              phone = None, companyName = None,
              tags = Some [''role:elder'', ''cultural:kabi-kabi'', ''cultural:gubbi-gubbi''],
              customFields = Some [(''elder_review_required'', PBool True)]\<rparr>)
     = Some ''Review cultural context before communication''
   \<and> actions_blocked (check_contact_cultural_protocols
             \<lparr>cid = ''c9'', email = None, firstName = Some ''Ann'', lastName = None,
              phone = None, companyName = None,
              tags = Some [''role:elder'', ''cultural:kabi-kabi'', ''cultural:gubbi-gubbi''],
              customFields = Some [(''elder_review_required'', PBool True)]\<rparr>)
     = [''automated_email'', ''automated_outreach'', ''ai_generated_content'',
        ''automated_email'', ''automated_outreach'', ''ai_generated_content'',
        ''bulk_operations'']"
proof -
  let ?c = "\<lparr>cid = ''c9'', email = None, firstName = Some ''Ann'', lastName = None,
             phone = None, companyName = None,
             tags = Some [''role:elder'', ''cultural:kabi-kabi'', ''cultural:gubbi-gubbi''],
             customFields = Some [(''elder_review_required'', PBool True)]\<rparr>"
  have a: "has_elder_tag (get_tags ?c)"
    by (simp add: has_elder_tag_def get_tags_def)
  have b: "field_truthy (get_customFields ?c) ''elder_review_required''"
    by (simp add: field_truthy_def get_customFields_def dict_get_def)
  have cu: "cultural_tags (get_tags ?c) = [''cultural:kabi-kabi'', ''cultural:gubbi-gubbi'']"
    by (simp add: cultural_tags_def get_tags_def)
  have d: "\<not> field_truthy (get_customFields ?c) ''sacred_knowledge''"
    by (simp add: field_truthy_def get_customFields_def dict_get_def)
  from classifier_last_rule_wins_actions_accumulate [of ?c]
  show ?thesis
    unfolding Let_def by (simp add: a b cu d)
qed

text \<open>
  C9. The elder rule is a substring test on the lower-cased tag: a contact with a tag
  that has \<open>elder\<close> anywhere in it, in any mix of upper and lower case, requires
  review and has the three outreach actions blocked. The tag need not be
  \<open>role:elder\<close>; \<open>interest:elderberry\<close> matches as well.
\<close>

theorem elder_substring_any_case_flags_contact:
  assumes "t \<in> set (get_tags c)"
    and "t = pre @ w @ post"
    and "map lower_char w = ''elder''"
  shows "requires_review (check_contact_cultural_protocols c)
       \<and> {''automated_email'', ''automated_outreach'', ''ai_generated_content''}
           \<subseteq> set (actions_blocked (check_contact_cultural_protocols c))"
proof -
  from assms(2,3) have "contains ''elder'' (lower t)"
    by (simp only: elder_in_any_case)
  with assms(1) have "has_elder_tag (get_tags c)"
    by (auto simp: has_elder_tag_def list_ex_iff)
  then show ?thesis
    unfolding classifier_characterisation Let_def outreach_actions_def
    by simp
qed

theorem elder_substring_any_case_flags_contact_witness:
  "''interest:ELDERberry''
      \<in> set (get_tags \<lparr>cid = ''c7'', email = None, firstName = None, lastName = None,
                        phone = None, companyName = None,
                        tags = Some [''the-harvest'', ''interest:ELDERberry''],
                        customFields = None\<rparr>)
   \<and> ''interest:ELDERberry'' = ''interest:'' @ ''ELDER'' @ ''berry''
   \<and> map lower_char ''ELDER'' = ''elder''
   \<and> requires_review (check_contact_cultural_protocols
         \<lparr>cid = ''c7'', email = None, firstName = None, lastName = None,
          phone = None, companyName = None,
          tags = Some [''the-harvest'', ''interest:ELDERberry''],
          customFields = None\<rparr>)
   \<and> {''automated_email'', ''automated_outreach'', ''ai_generated_content''}
       \<subseteq> set (actions_blocked (check_contact_cultural_protocols
         \<lparr>cid = ''c7'', email = None, firstName = None, lastName = None,
          phone = None, companyName = None,
          tags = Some [''the-harvest'', ''interest:ELDERberry''],
          customFields = None\<rparr>))"
proof -
  let ?c = "\<lparr>cid = ''c7'', email = None, firstName = None, lastName = None,
             phone = None, companyName = None,
             tags = Some [''the-harvest'', ''interest:ELDERberry''],
             customFields = None\<rparr>"
  have m: "''interest:ELDERberry'' \<in> set (get_tags ?c)"
    by (simp add: get_tags_def)
  have s: "''interest:ELDERberry'' = ''interest:'' @ ''ELDER'' @ ''berry''"
    by simp
  have l: "map lower_char ''ELDER'' = ''elder''"
    by code_simp
  from elder_substring_any_case_flags_contact [OF m s l] m s l
  show ?thesis
    by blast
qed

section \<open>Search conditions\<close>

text \<open>
  A search in mock mode with one condition on a field that is not blocked passes the
  checks and applies that condition to the contacts left by the tag filter.
\<close>

lemma filter_gte_result:
  "filter_gte field v cs = Inr rs \<Longrightarrow>
     rs = filter (\<lambda>c. py_ge (case dict_get (get_customFields c) field of
                               None \<Rightarrow> PInt 0 | Some x \<Rightarrow> x) v = Inr True) cs"
  by (induction cs arbitrary: rs) (auto split: sum.splits if_splits)

lemma read_open:
  "f \<notin> set BLOCKED_FIELDS \<Longrightarrow> check_cultural_protocol f ''read'' None = Inr ()"
  by (simp add: check_cultural_protocol_def)

lemma dict_get_single:
  "dict_get [(k, v)] k' = (if k = k' then Some v else None)"
  by (simp add: dict_get_def)

lemma search_single_condition:
  assumes "mock_mode st" and "f \<notin> set BLOCKED_FIELDS"
  shows "search_contacts (Some \<lparr>f_tags = tg, f_customFieldFilters = Some [(f, cond)]\<rparr>) st
           = apply_condition f cond (filter_by_tags tg (mock_contacts st))"
  using assms
  by (simp add: search_contacts_def dict_keys_def read_open split: sum.splits)

text \<open>
  C7 (as the code has it). \<open>search_contacts\<close> interprets three operators: \<open>$gte\<close>,
  \<open>$eq\<close> and \<open>$exists\<close>. There is no less-or-equal operator: a condition that
  holds only \<open>$lte\<close> filters nothing, and the search returns every contact that the
  tag filter leaves, whatever its field value. With \<open>$eq\<close> the result is the
  contacts whose field (\<open>None\<close> when missing) equals the value, with \<open>$exists\<close>
  those whose having the field equals the value, and with \<open>$gte\<close>, when no
  comparison raises, those whose field (0 when missing) is at least the value.
\<close>

theorem search_condition_kinds:
  assumes "mock_mode st" and "f \<notin> set BLOCKED_FIELDS"
  shows "search_contacts
           (Some \<lparr>f_tags = tg, f_customFieldFilters = Some [(f, [(''$lte'', v)])]\<rparr>) st
           = Inr (filter_by_tags tg (mock_contacts st))
       \<and> search_contacts
           (Some \<lparr>f_tags = tg, f_customFieldFilters = Some [(f, [(''$eq'', v)])]\<rparr>) st
           = Inr (filter (\<lambda>c. py_eq (case dict_get (get_customFields c) f of
                                        None \<Rightarrow> PNone | Some x \<Rightarrow> x) v)
                    (filter_by_tags tg (mock_contacts st)))
       \<and> search_contacts
           (Some \<lparr>f_tags = tg, f_customFieldFilters = Some [(f, [(''$exists'', v)])]\<rparr>) st
           = Inr (filter (\<lambda>c. py_eq (PBool (dict_has f (get_customFields c))) v)
                    (filter_by_tags tg (mock_contacts st)))
       \<and> (\<forall>rs. search_contacts
                  (Some \<lparr>f_tags = tg, f_customFieldFilters = Some [(f, [(''$gte'', v)])]\<rparr>) st
                  = Inr rs \<longrightarrow>
                rs = filter (\<lambda>c. py_ge (case dict_get (get_customFields c) f of
                                          None \<Rightarrow> PInt 0 | Some x \<Rightarrow> x) v = Inr True)
                       (filter_by_tags tg (mock_contacts st)))"
proof -
  have lte: "apply_condition f [(''$lte'', v)] cs = Inr cs" for cs
    by (simp add: apply_condition_def dict_get_single)
  have eq: "apply_condition f [(''$eq'', v)] cs
              = Inr (filter (\<lambda>c. py_eq (case dict_get (get_customFields c) f of
                                           None \<Rightarrow> PNone | Some x \<Rightarrow> x) v) cs)" for cs
    by (simp add: apply_condition_def dict_get_single)
  have ex: "apply_condition f [(''$exists'', v)] cs
              = Inr (filter (\<lambda>c. py_eq (PBool (dict_has f (get_customFields c))) v) cs)" for cs
    by (simp add: apply_condition_def dict_get_single)
  have gte: "apply_condition f [(''$gte'', v)] cs = filter_gte f v cs" for cs
    by (simp add: apply_condition_def dict_get_single)
  show ?thesis
    unfolding search_single_condition [OF assms] lte eq ex gte
    by (simp add: filter_gte_result)
qed

theorem search_condition_kinds_witness:
  "mock_mode (init None)
   \<and> ''stories_count'' \<notin> set BLOCKED_FIELDS
   \<and> search_contacts
        (Some \<lparr>f_tags = None,
               f_customFieldFilters = Some [(''stories_count'', [(''$lte'', PInt 5)])]\<rparr>)
        (init None)
       = Inr (filter_by_tags None (mock_contacts (init None)))
   \<and> search_contacts
        (Some \<lparr>f_tags = None,
               f_customFieldFilters = Some [(''stories_count'', [(''$gte'', PInt 5)])]\<rparr>)
        (init None)
       = Inr [load_mock_data ! 0, load_mock_data ! 2]
   \<and> [load_mock_data ! 0, load_mock_data ! 2]
       = filter (\<lambda>c. py_ge (case dict_get (get_customFields c) ''stories_count'' of
                              None \<Rightarrow> PInt 0 | Some x \<Rightarrow> x) (PInt 5) = Inr True)
           (filter_by_tags None (mock_contacts (init None)))"
proof -
  have m: "mock_mode (init None)"
    by code_simp
  have o: "''stories_count'' \<notin> set BLOCKED_FIELDS"
    by (simp add: BLOCKED_FIELDS_def)
  have g: "search_contacts
        (Some \<lparr>f_tags = None,
               f_customFieldFilters = Some [(''stories_count'', [(''$gte'', PInt 5)])]\<rparr>)
        (init None)
       = Inr [load_mock_data ! 0, load_mock_data ! 2]"
    by code_simp
  from search_condition_kinds [OF m o, of None "PInt 5"] m o g
  show ?thesis
    by blast
qed

text \<open>
  The claim as written fails: on the mock contacts a less-or-equal condition with
  threshold 5 on \<open>stories_count\<close> returns all five contacts, the third of which has
  \<open>stories_count\<close> 12.
\<close>

theorem search_lte_returns_larger_values:
  "search_contacts
     (Some \<lparr>f_tags = None,
            f_customFieldFilters = Some [(''stories_count'', [(''$lte'', PInt 5)])]\<rparr>)
     (init None) = Inr load_mock_data
   \<and> dict_get (get_customFields (load_mock_data ! 2)) ''stories_count'' = Some (PInt 12)
   \<and> py_ge (PInt 5) (PInt 12) = Inr False"
  by code_simp

section \<open>Adding a tag\<close>

text \<open>
  Writing a contact back keeps it findable under its id; logging leaves the contacts
  alone. In mock mode, for a contact that is in the store, \<open>get_contact\<close> returns it,
  a tags-only \<open>update_contact\<close> stores the new tag list, and \<open>add_tag\<close> either
  returns the contact as it is (tag present) or stores the tag list with the tag
  appended (tag absent).
\<close>

lemma lookup_cid: "lookup k cs = Some c \<Longrightarrow> cid c = k"
  unfolding lookup_def by (induction cs) (auto split: if_splits)

lemma lookup_store_put:
  "lookup k cs = Some c0 \<Longrightarrow> cid c = k \<Longrightarrow> lookup k (store_put c cs) = Some c"
  unfolding lookup_def by (induction cs) (auto split: if_splits)

lemma store_put_twice:
  "cid c' = cid c \<Longrightarrow> store_put c' (store_put c cs) = store_put c' cs"
  by (induction cs) auto

lemma log_keeps_store:
  "mock_mode (log_cultural_protocol_check check lvl st) = mock_mode st"
  "mock_contacts (log_cultural_protocol_check check lvl st) = mock_contacts st"
  by (simp_all add: log_cultural_protocol_check_def)

lemma get_contact_found:
  assumes "mock_mode st" and "lookup k (mock_contacts st) = Some c"
  shows "\<exists>st'. get_contact k st = (Inr c, st')
              \<and> mock_mode st' \<and> mock_contacts st' = mock_contacts st"
  using assms by (simp add: get_contact_def Let_def log_keeps_store)

lemma update_contact_tags_only:
  assumes "mock_mode st" and "lookup k (mock_contacts st) = Some c"
  shows "\<exists>st'. update_contact k \<lparr>u_tags = Some ts, u_customFields = None\<rparr> st
                 = (Inr (c\<lparr>tags := Some ts\<rparr>), st')
              \<and> mock_mode st'
              \<and> mock_contacts st' = store_put (c\<lparr>tags := Some ts\<rparr>) (mock_contacts st)"
proof -
  from get_contact_found [OF assms] obtain st1 where
    g: "get_contact k st = (Inr c, st1)" and m1: "mock_mode st1"
    and s1: "mock_contacts st1 = mock_contacts st"
    by blast
  show ?thesis
    using assms(1) g m1 s1
    by (simp add: update_contact_def dict_keys_def Let_def log_keeps_store)
qed

lemma add_tag_present:
  assumes "mock_mode st" and "lookup k (mock_contacts st) = Some c"
    and "t \<in> set (get_tags c)"
  shows "\<exists>st'. add_tag k t st = (Inr c, st')
              \<and> mock_mode st' \<and> mock_contacts st' = mock_contacts st"
proof -
  from get_contact_found [OF assms(1,2)] obtain st1 where
    g: "get_contact k st = (Inr c, st1)" and m1: "mock_mode st1"
    and s1: "mock_contacts st1 = mock_contacts st"
    by blast
  show ?thesis
    using g m1 s1 assms(3) by (simp add: add_tag_def)
qed

lemma add_tag_absent:
  assumes "mock_mode st" and "lookup k (mock_contacts st) = Some c"
    and "t \<notin> set (get_tags c)"
  shows "\<exists>st'. add_tag k t st = (Inr (c\<lparr>tags := Some (get_tags c @ [t])\<rparr>), st')
              \<and> mock_mode st'
              \<and> mock_contacts st'
                  = store_put (c\<lparr>tags := Some (get_tags c @ [t])\<rparr>) (mock_contacts st)"
proof -
  let ?c' = "c\<lparr>tags := Some (get_tags c @ [t])\<rparr>"
  from get_contact_found [OF assms(1,2)] obtain st1 where
    g: "get_contact k st = (Inr c, st1)" and m1: "mock_mode st1"
    and s1: "mock_contacts st1 = mock_contacts st"
    by blast
  have ck: "cid c = k"
    using assms(2) by (rule lookup_cid)
  show ?thesis
  proof (cases "tags c")
    case None
    from update_contact_tags_only [OF m1, of k c "get_tags c @ [t]"] assms(2) s1
    obtain st' where
      "update_contact k \<lparr>u_tags = Some (get_tags c @ [t]), u_customFields = None\<rparr> st1
         = (Inr ?c', st')"
      "mock_mode st'" "mock_contacts st' = store_put ?c' (mock_contacts st)"
      by auto
    with g assms(3) None show ?thesis
      by (simp add: add_tag_def Let_def)
  next
    case (Some old)
    let ?st2 = "st1\<lparr>mock_contacts := store_put ?c' (mock_contacts st1)\<rparr>"
    have m2: "mock_mode ?st2"
      using m1 by simp
    have l2: "lookup k (mock_contacts ?st2) = Some ?c'"
      using assms(2) s1 ck by (simp add: lookup_store_put)
    from update_contact_tags_only [OF m2 l2, of "get_tags c @ [t]"]
    obtain st' where
      u: "update_contact k \<lparr>u_tags = Some (get_tags c @ [t]), u_customFields = None\<rparr> ?st2
         = (Inr ?c', st')"
      and m': "mock_mode st'"
      and s': "mock_contacts st' = store_put ?c' (mock_contacts ?st2)"
      by auto
    from s' s1 have "mock_contacts st' = store_put ?c' (mock_contacts st)"
      by (simp add: store_put_twice)
    with g assms(3) Some u m' show ?thesis
      by (simp add: add_tag_def Let_def)
  qed
qed

lemma count_list_snoc: "count_list (xs @ [t]) t = count_list xs t + 1"
  by (induction xs) auto

text \<open>
  C8 (as the code has it). In mock mode, for a contact that is in the store, two calls
  \<open>add_tag(id, t)\<close> in a row both succeed and return the same record, and the
  second call leaves the contacts, so also the tag list, as the first call left them.
  The tag list is then the old one, with \<open>t\<close> appended when it was not there; the
  tag occurs in it once when it occurred at most once before, and in general
  \<open>max 1 n\<close> times for \<open>n\<close> occurrences before, since \<open>add_tag\<close> does not remove
  duplicates that are already stored.
\<close>

theorem add_tag_twice:
  assumes "mock_mode st" and "lookup contact_id (mock_contacts st) = Some c"
  shows "\<exists>c' st1 st2.
           add_tag contact_id t st = (Inr c', st1)
         \<and> add_tag contact_id t st1 = (Inr c', st2)
         \<and> mock_contacts st2 = mock_contacts st1
         \<and> lookup contact_id (mock_contacts st2) = Some c'
         \<and> get_tags c' = (if t \<in> set (get_tags c) then get_tags c else get_tags c @ [t])
         \<and> count_list (get_tags c') t = max 1 (count_list (get_tags c) t)
         \<and> (count_list (get_tags c) t \<le> 1 \<longrightarrow> count_list (get_tags c') t = 1)"
proof -
  let ?ts = "if t \<in> set (get_tags c) then get_tags c else get_tags c @ [t]"
  have first: "\<exists>c' st1. add_tag contact_id t st = (Inr c', st1) \<and> mock_mode st1
                 \<and> lookup contact_id (mock_contacts st1) = Some c'
                 \<and> get_tags c' = ?ts"
  proof (cases "t \<in> set (get_tags c)")
    case True
    from add_tag_present [OF assms True] assms(2) True show ?thesis
      by auto
  next
    case False
    have ck: "cid c = contact_id"
      using assms(2) by (rule lookup_cid)
    from add_tag_absent [OF assms False] obtain st1 where
      a: "add_tag contact_id t st = (Inr (c\<lparr>tags := Some (get_tags c @ [t])\<rparr>), st1)"
      and m: "mock_mode st1"
      and s: "mock_contacts st1
                = store_put (c\<lparr>tags := Some (get_tags c @ [t])\<rparr>) (mock_contacts st)"
      by blast
    have "lookup contact_id (mock_contacts st1) = Some (c\<lparr>tags := Some (get_tags c @ [t])\<rparr>)"
      unfolding s using assms(2) ck by (simp add: lookup_store_put)
    with a m False show ?thesis
      by (simp add: get_tags_def)
  qed
  then obtain c' st1 where
    a1: "add_tag contact_id t st = (Inr c', st1)" and m1: "mock_mode st1"
    and l1: "lookup contact_id (mock_contacts st1) = Some c'"
    and t1: "get_tags c' = ?ts"
    by blast
  from t1 have mem: "t \<in> set (get_tags c')"
    by (simp split: if_splits)
  from add_tag_present [OF m1 l1 mem] obtain st2 where
    a2: "add_tag contact_id t st1 = (Inr c', st2)"
    and s2: "mock_contacts st2 = mock_contacts st1"
    by blast
  have cnt: "count_list (get_tags c') t = max 1 (count_list (get_tags c) t)"
  proof (cases "t \<in> set (get_tags c)")
    case True
    then have "count_list (get_tags c) t \<noteq> 0"
      by (simp add: count_list_0_iff)
    with t1 True show ?thesis
      by simp
  next
    case False
    then have "count_list (get_tags c) t = 0"
      by (simp add: count_list_0_iff)
    with t1 False show ?thesis
      by (simp add: count_list_snoc)
  qed
  from a1 a2 s2 l1 t1 cnt show ?thesis
    by (intro exI [of _ c'] exI [of _ st1] exI [of _ st2]) auto
qed

theorem add_tag_twice_witness:
  "mock_mode (init None)
   \<and> lookup ''contact_001'' (mock_contacts (init None)) = Some (load_mock_data ! 0)
   \<and> (\<exists>c' st1 st2.
           add_tag ''contact_001'' ''opportunity:act-farm'' (init None) = (Inr c', st1)
         \<and> add_tag ''contact_001'' ''opportunity:act-farm'' st1 = (Inr c', st2)
         \<and> mock_contacts st2 = mock_contacts st1
         \<and> lookup ''contact_001'' (mock_contacts st2) = Some c'
         \<and> get_tags c' =
             (if ''opportunity:act-farm'' \<in> set (get_tags (load_mock_data ! 0))
              then get_tags (load_mock_data ! 0)
              else get_tags (load_mock_data ! 0) @ [''opportunity:act-farm''])
         \<and> count_list (get_tags c') ''opportunity:act-farm''
             = max 1 (count_list (get_tags (load_mock_data ! 0)) ''opportunity:act-farm'')
         \<and> (count_list (get_tags (load_mock_data ! 0)) ''opportunity:act-farm'' \<le> 1
              \<longrightarrow> count_list (get_tags c') ''opportunity:act-farm'' = 1))
   \<and> count_list (get_tags (load_mock_data ! 0)) ''opportunity:act-farm'' \<le> 1"
proof -
  have m: "mock_mode (init None)"
    by code_simp
  have l: "lookup ''contact_001'' (mock_contacts (init None)) = Some (load_mock_data ! 0)"
    by code_simp
  have n: "count_list (get_tags (load_mock_data ! 0)) ''opportunity:act-farm'' \<le> 1"
    by code_simp
  from add_tag_twice [OF m l, of "''opportunity:act-farm''"] m l n
  show ?thesis
    by blast
qed

text \<open>
  The claim as written fails for a record that already holds the tag twice. Such a
  record is reached through the tool itself: \<open>update_contact\<close> stores whatever tag
  list it is given. After that, two calls of \<open>add_tag\<close> leave the tag in the list
  twice.
\<close>

theorem add_tag_keeps_stored_duplicates:
  "map_option get_tags
     (lookup ''contact_001''
        (mock_contacts
           (snd (add_tag ''contact_001'' ''t''
              (snd (add_tag ''contact_001'' ''t''
                 (snd (update_contact ''contact_001''
                         \<lparr>u_tags = Some [''t'', ''t''], u_customFields = None\<rparr>
                         (init None)))))))))
     = Some [''t'', ''t'']
   \<and> count_list [''t'', ''t''] ''t'' = 2"
  by code_simp

end
